theory Spec2Isabelle
  imports Main
begin

section \<open>Credential-based authentication of the full-stack boilerplates\<close>

text \<open>
  The repository holds several copies of one small authentication core, written in Python
  (Flask, PyJWT, bcrypt, sqlite3) with React clients. Two server variants and one client
  are embedded here:
  \<^item> \<open>bp3\<close>: \<^verbatim>\<open>backend/app.py\<close> of \<^verbatim>\<open>ai_fullstack_boilerplate (3).jsx\<close>
    (\<open>token_required\<close>, \<open>register\<close>, \<open>login\<close>);
  \<^item> \<open>p001\<close>: \<^verbatim>\<open>backend/auth.py\<close> and \<^verbatim>\<open>backend/app.py\<close> of \<^verbatim>\<open>part_001\<close>
    (\<open>create_token\<close>, \<open>token_required\<close>, \<open>register_user\<close>, \<open>login\<close>);
  \<^item> the client \<^verbatim>\<open>src/App.js\<close> of \<^verbatim>\<open>part_000\<close> (\<open>handleLogin\<close>, \<open>logout\<close>,
    \<open>handlePredict\<close>).
  Where two variants use one name, the embedded function carries the variant as a suffix.
\<close>

subsection \<open>Values, exceptions, responses\<close>

text \<open>
  JSON objects are Python dicts with string keys; the values that occur in this code are
  strings and integers.
\<close>

datatype jval = JStr string | JInt int

type_synonym json = "(string \<times> jval) list"

text \<open>
  The Python exceptions that the embedded code can meet. An exception that leaves a view
  function is answered by Flask with status 500.
\<close>

datatype py_exception =
    IndexError
  | KeyError
  | DecodeError
  | InvalidAlgorithmError
  | InvalidSignatureError
  | ExpiredSignatureError
  | IntegrityError
  | OperationalError
  | UnicodeEncodeError
  | ValueError

text \<open>A view returns \<^verbatim>\<open>jsonify(body), status\<close>.\<close>

datatype http = Response nat json

type_synonym result = "py_exception + http"

subsection \<open>Python string operations\<close>

text \<open>
  \<^verbatim>\<open>str.split()\<close> with no argument splits at runs of whitespace and yields no empty
  string. Header values reach the view decoded as Latin-1, one \<open>char\<close> per code point; the
  Latin-1 code points that \<^verbatim>\<open>str.isspace\<close> accepts are listed.
\<close>

definition py_isspace :: "char \<Rightarrow> bool" where
  "py_isspace c \<longleftrightarrow> of_char c \<in> set [9, 10, 11, 12, 13, 28, 29, 30, 31, 32, 133, 160 :: nat]"

fun split_acc :: "string \<Rightarrow> string \<Rightarrow> string list" where
  "split_acc w [] = (if w = [] then [] else [w])"
| "split_acc w (c # cs) =
     (if py_isspace c then (if w = [] then split_acc [] cs else w # split_acc [] cs)
      else split_acc (w @ [c]) cs)"

definition py_split :: "string \<Rightarrow> string list" where
  "py_split s = split_acc [] s"

text \<open>\<^verbatim>\<open>xs[i]\<close> for a non-negative index: out of range raises \<open>IndexError\<close>.\<close>

definition py_index :: "'a list \<Rightarrow> nat \<Rightarrow> py_exception + 'a" where
  "py_index xs i = (if i < length xs then Inr (xs ! i) else Inl IndexError)"

text \<open>\<^verbatim>\<open>d[k]\<close> on a dict: a missing key raises \<open>KeyError\<close>.\<close>

definition py_getitem :: "json \<Rightarrow> string \<Rightarrow> py_exception + jval" where
  "py_getitem d k = (case map_of d k of None \<Rightarrow> Inl KeyError | Some v \<Rightarrow> Inr v)"

text \<open>
  \<^verbatim>\<open>s.split(d, 1)\<close> and \<^verbatim>\<open>s.rsplit(d, 1)\<close>, unpacked into two names: \<open>None\<close> is the
  \<open>ValueError\<close> of the unpacking when \<open>d\<close> does not occur.
\<close>

definition split1 :: "char \<Rightarrow> string \<Rightarrow> (string \<times> string) option" where
  "split1 d s =
     (if d \<in> set s
      then Some (takeWhile (\<lambda>c. c \<noteq> d) s, tl (dropWhile (\<lambda>c. c \<noteq> d) s))
      else None)"

definition rsplit1 :: "char \<Rightarrow> string \<Rightarrow> (string \<times> string) option" where
  "rsplit1 d s =
     (if d \<in> set s
      then Some (rev (tl (dropWhile (\<lambda>c. c \<noteq> d) (rev s))), rev (takeWhile (\<lambda>c. c \<noteq> d) (rev s)))
      else None)"

text \<open>
  The strings of a request body (\<^verbatim>\<open>data['username']\<close>, \<^verbatim>\<open>data['password']\<close>) are
  Python \<^verbatim>\<open>str\<close> values parsed from JSON: lists of code points, which may hold lone
  surrogates (JSON \<^verbatim>\<open>"\ud800"\<close>). \<^verbatim>\<open>s.encode()\<close>, and sqlite when it binds a
  \<^verbatim>\<open>str\<close> to a parameter, encode to UTF-8 and raise \<open>UnicodeEncodeError\<close> on a
  surrogate. Text that is valid Unicode (a column read from sqlite, a claim of a token) is
  held as its UTF-8 bytes, a \<open>string\<close>. \<open>py_str\<close> is the \<^verbatim>\<open>str\<close> whose code points are
  the given characters.
\<close>

type_synonym pystr = "int list"

definition py_str :: "string \<Rightarrow> pystr" where
  "py_str s = map of_char s"

definition utf8_code_point :: "int \<Rightarrow> string option" where
  "utf8_code_point c =
     (if c < 0 then None
      else if c < 128 then Some [char_of c]
      else if c < 2048 then Some [char_of (192 + c div 64), char_of (128 + c mod 64)]
      else if 55296 \<le> c \<and> c \<le> 57343 then None
      else if c < 65536 then
        Some [char_of (224 + c div 4096), char_of (128 + c div 64 mod 64), char_of (128 + c mod 64)]
      else if c < 1114112 then
        Some [char_of (240 + c div 262144), char_of (128 + c div 4096 mod 64),
              char_of (128 + c div 64 mod 64), char_of (128 + c mod 64)]
      else None)"

fun utf8_encode :: "pystr \<Rightarrow> py_exception + string" where
  "utf8_encode [] = Inr []"
| "utf8_encode (c # cs) =
     (case utf8_code_point c of
        None \<Rightarrow> Inl UnicodeEncodeError
      | Some b \<Rightarrow> (case utf8_encode cs of Inl e \<Rightarrow> Inl e | Inr bs \<Rightarrow> Inr (b @ bs)))"

subsection \<open>The libraries the code calls\<close>

text \<open>
  The primitives of the third-party libraries are parameters of the model; nothing is
  assumed about them beyond what a theorem states as a hypothesis.
  \<^item> \<open>b64enc\<close>, \<open>b64dec\<close>: URL-safe base64 without padding (\<open>None\<close>: \<^verbatim>\<open>binascii.Error\<close>);
  \<^item> \<open>json_dumps\<close>, \<open>json_loads\<close>: compact JSON text of an object and its parsing
    (\<open>None\<close>: not JSON, or not an object);
  \<^item> \<open>hmac_sha256 key msg\<close>: the raw HMAC-SHA256 digest;
  \<^item> \<open>py_int\<close>: Python's \<^verbatim>\<open>int\<close> on a string (\<open>None\<close>: \<open>ValueError\<close>);
  \<^item> \<open>float_le exp now\<close>: \<^verbatim>\<open>exp <= now\<close> where \<open>now\<close> is the clock in microseconds
    turned into a float of seconds, used only for clocks so far from the epoch that the
    float no longer tells microseconds apart;
  \<^item> \<open>hashpw password salt\<close>: \<^verbatim>\<open>bcrypt.hashpw(password, salt).decode()\<close>, the hash as
    text, and \<open>checkpw password hashed\<close>: \<^verbatim>\<open>bcrypt.checkpw(password, hashed)\<close> on the
    bytes of the password and of the stored hash. Both may raise (\<open>ValueError\<close> for a
    password or a hash that the installed bcrypt refuses).
\<close>

record lib =
  b64enc :: "string \<Rightarrow> string"
  b64dec :: "string \<Rightarrow> string option"
  json_dumps :: "json \<Rightarrow> string"
  json_loads :: "string \<Rightarrow> json option"
  hmac_sha256 :: "string \<Rightarrow> string \<Rightarrow> string"
  py_int :: "string \<Rightarrow> int option"
  float_le :: "int \<Rightarrow> int \<Rightarrow> bool"
  hashpw :: "string \<Rightarrow> string \<Rightarrow> py_exception + pystr"
  checkpw :: "string \<Rightarrow> string \<Rightarrow> py_exception + bool"

subsection \<open>PyJWT: \<^verbatim>\<open>jwt.encode\<close> and \<^verbatim>\<open>jwt.decode\<close>\<close>

text \<open>
  Both variants hand the result of \<^verbatim>\<open>jwt.encode\<close> to \<^verbatim>\<open>jsonify\<close> as a string, which is
  PyJWT 2; the model follows the current PyJWT 2 sources. Time is the UTC clock in
  microseconds since the epoch, the resolution of \<^verbatim>\<open>datetime\<close>.

  \<^verbatim>\<open>jwt.encode(payload, key)\<close> with the default algorithm HS256: the header is serialised
  with sorted keys, the signing input is \<^verbatim>\<open>header.payload\<close>, and the token is
  \<^verbatim>\<open>header.payload.signature\<close>, each segment base64url-encoded.
\<close>

definition jwt_header :: json where
  "jwt_header = [(''alg'', JStr ''HS256''), (''typ'', JStr ''JWT'')]"

definition jwt_encode :: "lib \<Rightarrow> json \<Rightarrow> string \<Rightarrow> string" where
  "jwt_encode L payload key =
     (let signing_input = b64enc L (json_dumps L jwt_header) @ ''.'' @ b64enc L (json_dumps L payload)
      in signing_input @ ''.'' @ b64enc L (hmac_sha256 L key signing_input))"

text \<open>
  \<^verbatim>\<open>PyJWS._load\<close>: split the token at its last and then at its first dot, decode the three
  segments and parse the header. It returns the payload bytes, the signing input, the
  header and the signature bytes.
\<close>

definition jws_load :: "lib \<Rightarrow> string \<Rightarrow> py_exception + (string \<times> string \<times> json \<times> string)" where
  "jws_load L jwt =
     (case rsplit1 CHR ''.'' jwt of
        None \<Rightarrow> Inl DecodeError
      | Some (signing_input, crypto_segment) \<Rightarrow>
     (case split1 CHR ''.'' signing_input of
        None \<Rightarrow> Inl DecodeError
      | Some (header_segment, payload_segment) \<Rightarrow>
     (case b64dec L header_segment of
        None \<Rightarrow> Inl DecodeError
      | Some header_data \<Rightarrow>
     (case json_loads L header_data of
        None \<Rightarrow> Inl DecodeError
      | Some header \<Rightarrow>
     (case b64dec L payload_segment of
        None \<Rightarrow> Inl DecodeError
      | Some payload \<Rightarrow>
     (case b64dec L crypto_segment of
        None \<Rightarrow> Inl DecodeError
      | Some signature \<Rightarrow> Inr (payload, signing_input, header, signature)))))))"

text \<open>
  \<^verbatim>\<open>PyJWS._verify_signature\<close>: the header's \<open>alg\<close> must be one of the allowed algorithms
  (here always the list \<open>[HS256]\<close>), and the signature must be the HMAC of the signing input.
\<close>

definition verify_signature ::
  "lib \<Rightarrow> string \<Rightarrow> json \<Rightarrow> string \<Rightarrow> string \<Rightarrow> string list \<Rightarrow> py_exception + unit" where
  "verify_signature L signing_input header signature key algorithms =
     (case map_of header ''alg'' of
        Some (JStr alg) \<Rightarrow>
          if alg \<in> set algorithms
          then (if hmac_sha256 L key signing_input = signature then Inr ()
                else Inl InvalidSignatureError)
          else Inl InvalidAlgorithmError
      | _ \<Rightarrow> Inl InvalidAlgorithmError)"

text \<open>
  \<^verbatim>\<open>PyJWT._validate_exp\<close>, run only when the claims have \<open>exp\<close>:
  \<^verbatim>\<open>exp = int(payload["exp"])\<close>, then \<^verbatim>\<open>if exp <= now: raise ExpiredSignatureError\<close>,
  with no leeway and \<open>now\<close> the float \<^verbatim>\<open>datetime.now(tz=timezone.utc).timestamp()\<close>: the
  clock's microseconds divided by \<open>10^6\<close>, rounded to the nearest double. Python compares
  the integer \<open>exp\<close> with that float exactly. While the clock is less than \<open>2^34\<close>
  seconds from the epoch (until the year 2514) neighbouring doubles are less than two
  microseconds apart, the rounding moves \<open>now\<close> by less than one microsecond and never
  across an integer, so the comparison is the one of the exact values; beyond that it
  is left to the parameter \<open>float_le\<close>. The other registered claims that PyJWT
  validates (\<open>nbf\<close>, \<open>iat\<close>, \<open>aud\<close>, \<open>iss\<close>) are never written by this code and are not
  modelled.
\<close>

definition exp_le_now :: "lib \<Rightarrow> int \<Rightarrow> int \<Rightarrow> bool" where
  "exp_le_now L exp now \<longleftrightarrow>
     (if \<bar>now\<bar> < 17179869184 * 1000000 then exp * 1000000 \<le> now else float_le L exp now)"

definition validate_exp :: "lib \<Rightarrow> json \<Rightarrow> int \<Rightarrow> py_exception + unit" where
  "validate_exp L claims now =
     (case map_of claims ''exp'' of
        None \<Rightarrow> Inr ()
      | Some (JInt exp) \<Rightarrow> if exp_le_now L exp now then Inl ExpiredSignatureError else Inr ()
      | Some (JStr s) \<Rightarrow>
          (case py_int L s of
             None \<Rightarrow> Inl DecodeError
           | Some exp \<Rightarrow> if exp_le_now L exp now then Inl ExpiredSignatureError else Inr ()))"

text \<open>
  \<^verbatim>\<open>jwt.decode(token, key, algorithms=[...])\<close>: load, verify the signature, parse the
  claims, validate \<open>exp\<close>, in this order.
\<close>

definition jwt_decode :: "lib \<Rightarrow> string \<Rightarrow> string \<Rightarrow> string list \<Rightarrow> int \<Rightarrow> py_exception + json" where
  "jwt_decode L jwt key algorithms now =
     (case jws_load L jwt of
        Inl e \<Rightarrow> Inl e
      | Inr (payload, signing_input, header, signature) \<Rightarrow>
     (case verify_signature L signing_input header signature key algorithms of
        Inl e \<Rightarrow> Inl e
      | Inr _ \<Rightarrow>
     (case json_loads L payload of
        None \<Rightarrow> Inl DecodeError
      | Some claims \<Rightarrow>
     (case validate_exp L claims now of
        Inl e \<Rightarrow> Inl e
      | Inr _ \<Rightarrow> Inr claims))))"

subsection \<open>The server process and its credential store\<close>

text \<open>
  The state a request can see: the signing secret, the clock, and the sqlite table
  \<^verbatim>\<open>users (id INTEGER PRIMARY KEY, username TEXT UNIQUE, password TEXT)\<close> as its rows in
  insertion order, the text columns as UTF-8 bytes. \<open>db_up\<close> is false when sqlite cannot
  open the database (the file is unreadable or the disk fails): \<^verbatim>\<open>sqlite3.connect\<close> and
  every statement then raise \<open>OperationalError\<close>.

  \<open>write_lock\<close> is true while a connection that was never closed still holds sqlite's
  write lock. An \<^verbatim>\<open>INSERT\<close> opens a transaction and takes the lock; when the statement
  then fails on the \<open>UNIQUE\<close> constraint the transaction stays open, and a caller that
  returns without \<^verbatim>\<open>conn.close()\<close> leaves the lock held. Reading is still possible;
  another connection that wants to write gets \<open>OperationalError\<close> (database is locked).
  \<open>collect\<close> is Python's garbage collector freeing the leaked connection at a time of
  its own choosing, which rolls the transaction back and releases the lock.
\<close>

type_synonym row = "int \<times> string \<times> string"

record server =
  SECRET_KEY :: string
  utcnow :: int
  db_up :: bool
  write_lock :: bool
  users :: "row list"

definition collect :: "server \<Rightarrow> server" where
  "collect s = s\<lparr>write_lock := False\<rparr>"

definition next_id :: "row list \<Rightarrow> int" where
  "next_id rows = fold max (map fst rows) 0 + 1"

text \<open>
  \<^verbatim>\<open>sqlite3.connect\<close>, \<^verbatim>\<open>INSERT INTO users (username, password) VALUES (?, ?)\<close> and the
  commit, in the order in which they can fail: opening the database, binding the two
  \<^verbatim>\<open>str\<close> parameters, taking the write lock, the \<open>UNIQUE\<close> constraint. A failure leaves
  the table as it was.
\<close>

definition insert_user :: "server \<Rightarrow> pystr \<Rightarrow> pystr \<Rightarrow> py_exception + server" where
  "insert_user s username password =
     (if \<not> db_up s then Inl OperationalError
      else (case utf8_encode username of
              Inl e \<Rightarrow> Inl e
            | Inr name \<Rightarrow>
           (case utf8_encode password of
              Inl e \<Rightarrow> Inl e
            | Inr pw \<Rightarrow>
                if write_lock s then Inl OperationalError
                else if name \<in> set (map (\<lambda>(i, u, p). u) (users s)) then Inl IntegrityError
                else Inr (s\<lparr>users := users s @ [(next_id (users s), name, pw)]\<rparr>))))"

text \<open>\<^verbatim>\<open>SELECT * FROM users WHERE username = ?\<close> and \<^verbatim>\<open>fetchone()\<close>.\<close>

definition select_by_username :: "server \<Rightarrow> pystr \<Rightarrow> py_exception + row option" where
  "select_by_username s username =
     (if \<not> db_up s then Inl OperationalError
      else (case utf8_encode username of
              Inl e \<Rightarrow> Inl e
            | Inr name \<Rightarrow> Inr (find (\<lambda>(i, u, p). u = name) (users s))))"

text \<open>\<^verbatim>\<open>SELECT * FROM users WHERE username=? AND password=?\<close> and \<^verbatim>\<open>fetchone()\<close>.\<close>

definition select_by_username_password ::
  "server \<Rightarrow> pystr \<Rightarrow> pystr \<Rightarrow> py_exception + row option" where
  "select_by_username_password s username password =
     (if \<not> db_up s then Inl OperationalError
      else (case utf8_encode username of
              Inl e \<Rightarrow> Inl e
            | Inr name \<Rightarrow>
           (case utf8_encode password of
              Inl e \<Rightarrow> Inl e
            | Inr pw \<Rightarrow> Inr (find (\<lambda>(i, u, p). u = name \<and> p = pw) (users s)))))"

subsection \<open>Variant p001: \<^verbatim>\<open>backend/auth.py\<close> and \<^verbatim>\<open>backend/app.py\<close> of \<^verbatim>\<open>part_001\<close>\<close>

text \<open>
  \<^verbatim>\<open>def create_token(username):
      return jwt.encode({"user": username}, SECRET_KEY, algorithm="HS256")\<close>
\<close>

definition create_token :: "lib \<Rightarrow> server \<Rightarrow> string \<Rightarrow> string" where
  "create_token L s username = jwt_encode L [(''user'', JStr username)] (SECRET_KEY s)"

text \<open>
  The decorator of \<^verbatim>\<open>auth.py\<close>. \<open>authorization\<close> is the request's \<^verbatim>\<open>Authorization\<close>
  header, \<open>None\<close> when the request has none; \<open>f\<close> is the wrapped view, called with the
  current user.
  \<^verbatim>\<open>
  token = None
  if 'Authorization' in request.headers:
      token = request.headers['Authorization'].split()[1]
  if not token:
      return jsonify({'error': 'Token is missing'}), 401
  try:
      data = jwt.decode(token, SECRET_KEY, algorithms=["HS256"])
      current_user = data['user']
  except:
      return jsonify({'error': 'Invalid token'}), 403
  return f(current_user, *args, **kwargs)
  \<close>
  The index \<^verbatim>\<open>[1]\<close> is taken before the \<^verbatim>\<open>try\<close>, so its \<open>IndexError\<close> leaves the
  decorator. \<open>try_block_p001\<close> is the body of the \<^verbatim>\<open>try\<close>.
\<close>

definition try_block_p001 :: "lib \<Rightarrow> server \<Rightarrow> string \<Rightarrow> py_exception + jval" where
  "try_block_p001 L s token =
     (case jwt_decode L token (SECRET_KEY s) [''HS256''] (utcnow s) of
        Inl e \<Rightarrow> Inl e
      | Inr data \<Rightarrow> py_getitem data ''user'')"

definition token_required_p001 ::
  "lib \<Rightarrow> server \<Rightarrow> string option \<Rightarrow> (jval \<Rightarrow> result) \<Rightarrow> result" where
  "token_required_p001 L s authorization f =
     (case authorization of
        None \<Rightarrow> Inr (Response 401 [(''error'', JStr ''Token is missing'')])
      | Some v \<Rightarrow>
          (case py_index (py_split v) 1 of
             Inl e \<Rightarrow> Inl e
           | Inr token \<Rightarrow>
               if token = [] then Inr (Response 401 [(''error'', JStr ''Token is missing'')])
               else (case try_block_p001 L s token of
                       Inl e \<Rightarrow> Inr (Response 403 [(''error'', JStr ''Invalid token'')])
                     | Inr current_user \<Rightarrow> f current_user)))"

text \<open>
  \<^verbatim>\<open>register_user\<close> of \<^verbatim>\<open>auth.py\<close>:
  \<^verbatim>\<open>
  try:
      conn = sqlite3.connect(DB_PATH)
      conn.execute("INSERT INTO users (username, password) VALUES (?, ?)", (username, password))
      conn.commit()
      conn.close()
      return jsonify({"message": "User registered successfully"})
  except sqlite3.IntegrityError:
      return jsonify({"error": "Username already exists"}), 400
  \<close>
  Only \<open>IntegrityError\<close> is caught, and that branch returns without closing the
  connection, which holds the write lock.
\<close>

definition register_user :: "server \<Rightarrow> pystr \<Rightarrow> pystr \<Rightarrow> server \<times> result" where
  "register_user s username password =
     (case insert_user s username password of
        Inr s' \<Rightarrow> (s', Inr (Response 200 [(''message'', JStr ''User registered successfully'')]))
      | Inl IntegrityError \<Rightarrow>
          (s\<lparr>write_lock := True\<rparr>, Inr (Response 400 [(''error'', JStr ''Username already exists'')]))
      | Inl e \<Rightarrow> (s, Inl e))"

text \<open>
  \<^verbatim>\<open>login\<close> of \<^verbatim>\<open>app.py\<close>: the row is selected by username and password, and the token
  is made for the username of the request, here as the bytes that sqlite bound.
\<close>

definition login_p001 :: "lib \<Rightarrow> server \<Rightarrow> pystr \<Rightarrow> pystr \<Rightarrow> result" where
  "login_p001 L s username password =
     (case select_by_username_password s username password of
        Inl e \<Rightarrow> Inl e
      | Inr (Some (i, name, pw)) \<Rightarrow> Inr (Response 200 [(''token'', JStr (create_token L s name))])
      | Inr None \<Rightarrow> Inr (Response 403 [(''error'', JStr ''Invalid credentials'')]))"

subsection \<open>Variant bp3: \<^verbatim>\<open>backend/app.py\<close> of \<^verbatim>\<open>ai_fullstack_boilerplate (3).jsx\<close>\<close>

text \<open>
  \<^verbatim>\<open>
  token = request.headers.get('Authorization')
  if not token:
      return jsonify({'message': 'Token is missing'}), 403
  try:
      token = token.split()[1]
      data = jwt.decode(token, app.config['SECRET_KEY'], algorithms=["HS256"])
      current_user = data['username']
  except:
      return jsonify({'message': 'Token is invalid'}), 403
  return f(current_user, *args, **kwargs)
  \<close>
  \<open>try_block_bp3\<close> is the body of the \<^verbatim>\<open>try\<close>; the bare \<^verbatim>\<open>except\<close> catches whatever it
  raises.
\<close>

definition try_block_bp3 :: "lib \<Rightarrow> server \<Rightarrow> string \<Rightarrow> py_exception + jval" where
  "try_block_bp3 L s v =
     (case py_index (py_split v) 1 of
        Inl e \<Rightarrow> Inl e
      | Inr token \<Rightarrow>
     (case jwt_decode L token (SECRET_KEY s) [''HS256''] (utcnow s) of
        Inl e \<Rightarrow> Inl e
      | Inr data \<Rightarrow> py_getitem data ''username''))"

definition token_required_bp3 ::
  "lib \<Rightarrow> server \<Rightarrow> string option \<Rightarrow> (jval \<Rightarrow> result) \<Rightarrow> result" where
  "token_required_bp3 L s authorization f =
     (case authorization of
        None \<Rightarrow> Inr (Response 403 [(''message'', JStr ''Token is missing'')])
      | Some v \<Rightarrow>
          if v = [] then Inr (Response 403 [(''message'', JStr ''Token is missing'')])
          else (case try_block_bp3 L s v of
                  Inl e \<Rightarrow> Inr (Response 403 [(''message'', JStr ''Token is invalid'')])
                | Inr current_user \<Rightarrow> f current_user))"

text \<open>
  \<^verbatim>\<open>
  username = data['username']
  password = bcrypt.hashpw(data['password'].encode(), bcrypt.gensalt()).decode()
  try:
      conn = sqlite3.connect('database.db')
      c = conn.cursor()
      c.execute('INSERT INTO users (username, password) VALUES (?, ?)', (username, password))
      conn.commit()
      conn.close()
      return jsonify({'message': 'User registered'}), 201
  except:
      return jsonify({'message': 'User already exists'}), 409
  \<close>
  \<open>hashed_password\<close> is the second line, which runs before the \<^verbatim>\<open>try\<close>; \<open>salt\<close> is what
  \<^verbatim>\<open>bcrypt.gensalt()\<close> drew. The bare \<^verbatim>\<open>except\<close> answers 409 for every exception of the
  insertion and returns without closing the connection.
\<close>

definition hashed_password :: "lib \<Rightarrow> pystr \<Rightarrow> string \<Rightarrow> py_exception + pystr" where
  "hashed_password L password salt =
     (case utf8_encode password of Inl e \<Rightarrow> Inl e | Inr pw \<Rightarrow> hashpw L pw salt)"

definition register_bp3 :: "lib \<Rightarrow> server \<Rightarrow> string \<Rightarrow> pystr \<Rightarrow> pystr \<Rightarrow> server \<times> result" where
  "register_bp3 L s salt username password =
     (case hashed_password L password salt of
        Inl e \<Rightarrow> (s, Inl e)
      | Inr hashed \<Rightarrow>
          (case insert_user s username hashed of
             Inr s' \<Rightarrow> (s', Inr (Response 201 [(''message'', JStr ''User registered'')]))
           | Inl IntegrityError \<Rightarrow>
               (s\<lparr>write_lock := True\<rparr>, Inr (Response 409 [(''message'', JStr ''User already exists'')]))
           | Inl e \<Rightarrow> (s, Inr (Response 409 [(''message'', JStr ''User already exists'')]))))"

text \<open>
  \<^verbatim>\<open>
  c.execute('SELECT * FROM users WHERE username = ?', (data['username'],))
  user = c.fetchone()
  conn.close()
  if user and bcrypt.checkpw(data['password'].encode(), user[2].encode()):
      token = jwt.encode({'username': user[1], 'exp': datetime.datetime.utcnow()
                          + datetime.timedelta(minutes=30)}, app.config['SECRET_KEY'])
      return jsonify({'token': token})
  return jsonify({'message': 'Invalid credentials'}), 401
  \<close>
  Nothing is inside a \<^verbatim>\<open>try\<close>. The password is encoded and checked only when a row was
  found; \<^verbatim>\<open>user[1]\<close> is the username and \<^verbatim>\<open>user[2]\<close> the stored hash. PyJWT stores a
  \<^verbatim>\<open>datetime\<close> as whole seconds (\<^verbatim>\<open>timegm(exp.utctimetuple())\<close>).
\<close>

definition login_bp3 :: "lib \<Rightarrow> server \<Rightarrow> pystr \<Rightarrow> pystr \<Rightarrow> result" where
  "login_bp3 L s username password =
     (case select_by_username s username of
        Inl e \<Rightarrow> Inl e
      | Inr None \<Rightarrow> Inr (Response 401 [(''message'', JStr ''Invalid credentials'')])
      | Inr (Some (i, name, hashed)) \<Rightarrow>
          (case utf8_encode password of
             Inl e \<Rightarrow> Inl e
           | Inr pw \<Rightarrow>
          (case checkpw L pw hashed of
             Inl e \<Rightarrow> Inl e
           | Inr ok \<Rightarrow>
               if ok
               then Inr (Response 200 [(''token'', JStr (jwt_encode L
                      [(''username'', JStr name), (''exp'', JInt ((utcnow s + 1800 * 1000000) div 1000000))]
                      (SECRET_KEY s)))])
               else Inr (Response 401 [(''message'', JStr ''Invalid credentials'')]))))"

subsection \<open>The client: \<^verbatim>\<open>src/App.js\<close> of \<^verbatim>\<open>part_000\<close>\<close>

text \<open>
  The React state (\<open>token\<close>, \<open>username\<close>, \<open>prediction\<close>) and the browser's
  \<^verbatim>\<open>localStorage\<close>. \<open>None\<close> is JavaScript's \<^verbatim>\<open>null\<close> (or \<^verbatim>\<open>undefined\<close> for the
  prediction, which starts as the empty string).
\<close>

record client =
  st_token :: "string option"
  st_username :: "string option"
  st_prediction :: "jval option"
  localStorage :: "string \<rightharpoonup> string"

definition handleLogin :: "client \<Rightarrow> string \<Rightarrow> string \<Rightarrow> client" where
  "handleLogin c tok name =
     c\<lparr>st_token := Some tok, st_username := Some name,
       localStorage := (localStorage c)(''token'' \<mapsto> tok, ''username'' \<mapsto> name)\<rparr>"

definition logout :: "client \<Rightarrow> client" where
  "logout c =
     c\<lparr>st_token := None, st_username := None,
       localStorage := (localStorage c)(''token'' := None, ''username'' := None)\<rparr>"

text \<open>
  What \<^verbatim>\<open>await fetch(...)\<close> yields: the promise rejects when the network fails, otherwise
  it resolves to a response with a status and a body (\<open>None\<close>: the body is not JSON).
  Flask answers a view's \<^verbatim>\<open>jsonify(body), status\<close> with that status and body, and an
  exception that left the view with status 500 and an error page, which is not JSON.
\<close>

datatype fetched = Rejected | Fetched nat "json option"

datatype js_exception = TypeError | SyntaxError

definition flask_response :: "result \<Rightarrow> fetched" where
  "flask_response r = (case r of Inl e \<Rightarrow> Fetched 500 None | Inr (Response status body) \<Rightarrow> Fetched status (Some body))"

text \<open>The header the client sends: \<^verbatim>\<open>'Bearer ' + token\<close>.\<close>

definition authorization_header :: "client \<Rightarrow> string" where
  "authorization_header c = ''Bearer '' @ (case st_token c of None \<Rightarrow> ''null'' | Some tok \<Rightarrow> tok)"

text \<open>
  \<^verbatim>\<open>
  if (response.status === 401) {
    alert('Session expired. Please log in again.');
    logout();
    return;
  }
  const data = await response.json();
  setPrediction(data.prediction);
  \<close>
  The result is the client afterwards and the exception, if any, that left the handler.
\<close>

definition handlePredict :: "client \<Rightarrow> fetched \<Rightarrow> client \<times> js_exception option" where
  "handlePredict c r =
     (case r of
        Rejected \<Rightarrow> (c, Some TypeError)
      | Fetched status body \<Rightarrow>
          if status = 401 then (logout c, None)
          else (case body of
                  None \<Rightarrow> (c, Some SyntaxError)
                | Some data \<Rightarrow> (c\<lparr>st_prediction := map_of data ''prediction''\<rparr>, None)))"

subsection \<open>What a theorem asks of the libraries\<close>

text \<open>
  \<open>round_trips L key payload\<close>: on the token that \<^verbatim>\<open>jwt.encode\<close> builds for this
  payload and key, base64 and JSON decoding invert the encoding, and the segments hold
  neither a dot nor whitespace (they are base64url text).
\<close>

definition round_trips :: "lib \<Rightarrow> string \<Rightarrow> json \<Rightarrow> bool" where
  "round_trips L key payload \<longleftrightarrow>
     (let h = b64enc L (json_dumps L jwt_header);
          p = b64enc L (json_dumps L payload);
          g = hmac_sha256 L key (h @ ''.'' @ p)
      in CHR ''.'' \<notin> set h \<and> CHR ''.'' \<notin> set (b64enc L g)
         \<and> list_all (\<lambda>c. \<not> py_isspace c) (h @ p @ b64enc L g)
         \<and> b64dec L h = Some (json_dumps L jwt_header)
         \<and> json_loads L (json_dumps L jwt_header) = Some jwt_header
         \<and> b64dec L p = Some (json_dumps L payload)
         \<and> json_loads L (json_dumps L payload) = Some payload
         \<and> b64dec L (b64enc L g) = Some g)"

subsection \<open>An executable instance of the libraries\<close>

text \<open>
  To run the model on concrete requests the library parameters need values. The
  instance below is base64url without padding, compact JSON for objects of strings and
  integers (no escapes), and small checksums in place of HMAC-SHA256 and bcrypt. It
  serves the closed examples only; the general theorems hold for every \<open>lib\<close>.
\<close>

definition b64_alphabet :: string where
  "b64_alphabet = ''ABCDEFGHIJKLMNOPQRSTUVWXYZabcdefghijklmnopqrstuvwxyz0123456789-_''"

definition b64_char :: "int \<Rightarrow> char" where
  "b64_char n = b64_alphabet ! nat n"

fun b64_groups :: "int list \<Rightarrow> string" where
  "b64_groups [] = []"
| "b64_groups [a] = [b64_char (a div 4), b64_char (a mod 4 * 16)]"
| "b64_groups [a, b] =
     [b64_char (a div 4), b64_char (a mod 4 * 16 + b div 16), b64_char (b mod 16 * 4)]"
| "b64_groups (a # b # c # bs) =
     [b64_char (a div 4), b64_char (a mod 4 * 16 + b div 16),
      b64_char (b mod 16 * 4 + c div 64), b64_char (c mod 64)] @ b64_groups bs"

definition demo_b64enc :: "string \<Rightarrow> string" where
  "demo_b64enc s = b64_groups (map of_char s)"

definition b64_value :: "char \<Rightarrow> int option" where
  "b64_value c =
     (let n = of_char c :: int in
      if 65 \<le> n \<and> n \<le> 90 then Some (n - 65)
      else if 97 \<le> n \<and> n \<le> 122 then Some (n - 71)
      else if 48 \<le> n \<and> n \<le> 57 then Some (n + 4)
      else if n = 45 then Some 62
      else if n = 95 then Some 63
      else None)"

fun b64_bytes :: "int list \<Rightarrow> int list option" where
  "b64_bytes [] = Some []"
| "b64_bytes [x] = None"
| "b64_bytes [x, y] = Some [x * 4 + y div 16]"
| "b64_bytes [x, y, z] = Some [x * 4 + y div 16, y mod 16 * 16 + z div 4]"
| "b64_bytes (x # y # z # w # vs) =
     map_option (\<lambda>bs. (x * 4 + y div 16) # (y mod 16 * 16 + z div 4) # (z mod 4 * 64 + w) # bs)
       (b64_bytes vs)"

definition demo_b64dec :: "string \<Rightarrow> string option" where
  "demo_b64dec s =
     (if list_all (\<lambda>c. b64_value c \<noteq> None) s
      then map_option (map char_of) (b64_bytes (map (\<lambda>c. the (b64_value c)) s))
      else None)"

fun show_digits :: "nat \<Rightarrow> int \<Rightarrow> string" where
  "show_digits 0 n = []"
| "show_digits (Suc k) n =
     (if n < 10 then [char_of (48 + n)] else show_digits k (n div 10) @ [char_of (48 + n mod 10)])"

definition show_int :: "int \<Rightarrow> string" where
  "show_int i = (if i < 0 then CHR ''-'' # show_digits 20 (- i) else show_digits 20 i)"

definition quote :: "string \<Rightarrow> string" where
  "quote s = CHR 0x22 # s @ [CHR 0x22]"

fun dumps_value :: "jval \<Rightarrow> string" where
  "dumps_value (JStr s) = quote s"
| "dumps_value (JInt i) = show_int i"

fun dumps_members :: "json \<Rightarrow> string" where
  "dumps_members [] = []"
| "dumps_members [(k, v)] = quote k @ '':'' @ dumps_value v"
| "dumps_members ((k, v) # m # ms) = quote k @ '':'' @ dumps_value v @ '','' @ dumps_members (m # ms)"

definition demo_dumps :: "json \<Rightarrow> string" where
  "demo_dumps j = ''{'' @ dumps_members j @ ''}''"

fun split_on :: "char \<Rightarrow> string \<Rightarrow> string list" where
  "split_on d [] = [] # []"
| "split_on d (c # cs) =
     (if c = d then [] # split_on d cs
      else (case split_on d cs of [] \<Rightarrow> [c] # [] | w # ws \<Rightarrow> (c # w) # ws))"

definition unquote :: "string \<Rightarrow> string option" where
  "unquote s =
     (if 2 \<le> length s \<and> hd s = CHR 0x22 \<and> last s = CHR 0x22 then Some (butlast (tl s)) else None)"

definition is_digit :: "char \<Rightarrow> bool" where
  "is_digit c \<longleftrightarrow> 48 \<le> (of_char c :: int) \<and> (of_char c :: int) \<le> 57"

definition loads_nat :: "string \<Rightarrow> int option" where
  "loads_nat s =
     (if s \<noteq> [] \<and> list_all is_digit s
      then Some (foldl (\<lambda>a c. 10 * a + (of_char c - 48)) 0 s)
      else None)"

definition demo_int :: "string \<Rightarrow> int option" where
  "demo_int s =
     (case s of
        [] \<Rightarrow> None
      | c # cs \<Rightarrow> if c = CHR ''-'' then map_option uminus (loads_nat cs) else loads_nat s)"

definition loads_value :: "string \<Rightarrow> jval option" where
  "loads_value s =
     (case unquote s of
        Some t \<Rightarrow> Some (JStr t)
      | None \<Rightarrow> map_option JInt (demo_int s))"

definition loads_member :: "string \<Rightarrow> (string \<times> jval) option" where
  "loads_member m =
     (case split1 CHR '':'' m of
        None \<Rightarrow> None
      | Some (k, v) \<Rightarrow>
          (case (unquote k, loads_value v) of
             (Some k', Some v') \<Rightarrow> Some (k', v')
           | _ \<Rightarrow> None))"

definition demo_loads :: "string \<Rightarrow> json option" where
  "demo_loads s =
     (if 2 \<le> length s \<and> hd s = CHR ''{'' \<and> last s = CHR ''}''
      then (let body = butlast (tl s);
                ms = (if body = [] then [] else map loads_member (split_on CHR '','' body))
            in if list_all (\<lambda>m. m \<noteq> None) ms then Some (map the ms) else None)
      else None)"

definition demo_mac :: "string \<Rightarrow> string \<Rightarrow> string" where
  "demo_mac key msg =
     (let h = foldl (\<lambda>a c. (a * 33 + of_char c) mod 65536) (5381 :: int) (key @ CHR ''|'' # msg)
      in [char_of (h div 256), char_of (h mod 256)])"

text \<open>
  A stand-in for bcrypt: the hash starts with the eight characters of the salt, and
  checking a password hashes it again with the stored hash as salt, as bcrypt does. A
  hash shorter than a salt is refused with \<open>ValueError\<close>.
\<close>

definition demo_hash :: "string \<Rightarrow> string \<Rightarrow> string" where
  "demo_hash password salt = take 8 salt @ demo_b64enc (demo_mac (take 8 salt) password)"

definition demo_hashpw :: "string \<Rightarrow> string \<Rightarrow> py_exception + pystr" where
  "demo_hashpw password salt =
     (if length salt < 8 then Inl ValueError else Inr (py_str (demo_hash password salt)))"

definition demo_checkpw :: "string \<Rightarrow> string \<Rightarrow> py_exception + bool" where
  "demo_checkpw password hashed =
     (if length hashed < 8 then Inl ValueError else Inr (demo_hash password hashed = hashed))"

text \<open>A stand-in for the float comparison far from the epoch: the exact one.\<close>

definition demo_float_le :: "int \<Rightarrow> int \<Rightarrow> bool" where
  "demo_float_le exp now \<longleftrightarrow> exp * 1000000 \<le> now"

definition demo_lib :: lib where
  "demo_lib =
     \<lparr>b64enc = demo_b64enc, b64dec = demo_b64dec, json_dumps = demo_dumps,
      json_loads = demo_loads, hmac_sha256 = demo_mac, py_int = demo_int,
      float_le = demo_float_le, hashpw = demo_hashpw, checkpw = demo_checkpw\<rparr>"

text \<open>
  A wrapped view, a server at clock \<open>t\<close> whose table holds the user \<open>alice\<close> as
  \<^verbatim>\<open>register\<close> of bp3 stores her, a server with an empty table, and a client that has not
  logged in.
\<close>

definition demo_view :: "jval \<Rightarrow> result" where
  "demo_view current_user = Inr (Response 200 [(''user'', current_user)])"

definition demo_server :: "int \<Rightarrow> server" where
  "demo_server t =
     \<lparr>SECRET_KEY = ''your_jwt_secret_key'', utcnow = t, db_up = True, write_lock = False,
      users = [(1, ''alice'', demo_hash ''secret123'' ''saltsalt'')]\<rparr>"

definition empty_server :: server where
  "empty_server =
     \<lparr>SECRET_KEY = ''mysecret'', utcnow = 0, db_up = True, write_lock = False, users = []\<rparr>"

definition anonymous :: client where
  "anonymous =
     \<lparr>st_token = None, st_username = None, st_prediction = Some (JStr []), localStorage = Map.empty\<rparr>"

section \<open>Lemmas about the string operations, PyJWT and the table\<close>







lemma split1_append:
  "d \<notin> set a \<Longrightarrow> split1 d (a @ d # b) = Some (a, b)"
  by (simp add: split1_def takeWhile_append dropWhile_append)

lemma rsplit1_append:
  "d \<notin> set c \<Longrightarrow> rsplit1 d (a @ d # c) = Some (a, c)"
  by (simp add: rsplit1_def takeWhile_append dropWhile_append)

lemma jws_load_encode:
  assumes "round_trips L key payload"
  shows "jws_load L (jwt_encode L payload key) =
    Inr (json_dumps L payload,
         b64enc L (json_dumps L jwt_header) @ CHR ''.'' # b64enc L (json_dumps L payload),
         jwt_header,
         hmac_sha256 L key (b64enc L (json_dumps L jwt_header) @ CHR ''.'' # b64enc L (json_dumps L payload)))"
proof -
  let ?h = "b64enc L (json_dumps L jwt_header)"
  let ?p = "b64enc L (json_dumps L payload)"
  let ?g = "hmac_sha256 L key (?h @ CHR ''.'' # ?p)"
  from assms have h: "CHR ''.'' \<notin> set ?h" and g: "CHR ''.'' \<notin> set (b64enc L ?g)"
    and dh: "b64dec L ?h = Some (json_dumps L jwt_header)"
    and lh: "json_loads L (json_dumps L jwt_header) = Some jwt_header"
    and dp: "b64dec L ?p = Some (json_dumps L payload)"
    and dg: "b64dec L (b64enc L ?g) = Some ?g"
    by (simp_all add: round_trips_def Let_def)
  have r: "rsplit1 CHR ''.'' (?h @ CHR ''.'' # ?p @ CHR ''.'' # b64enc L ?g) = Some (?h @ CHR ''.'' # ?p, b64enc L ?g)"
    using rsplit1_append [OF g, of "?h @ CHR ''.'' # ?p"] by simp
  have s: "split1 CHR ''.'' (?h @ CHR ''.'' # ?p) = Some (?h, ?p)"
    using h by (rule split1_append)
  show ?thesis
    by (simp add: jws_load_def jwt_encode_def Let_def r s dh lh dp dg)
qed

lemma jwt_decode_encode_key:
  assumes "round_trips L key payload"
  shows "jwt_decode L (jwt_encode L payload key) key' [''HS256''] now =
    (if hmac_sha256 L key' (b64enc L (json_dumps L jwt_header) @ CHR ''.'' # b64enc L (json_dumps L payload))
          = hmac_sha256 L key (b64enc L (json_dumps L jwt_header) @ CHR ''.'' # b64enc L (json_dumps L payload))
     then (case validate_exp L payload now of Inl e \<Rightarrow> Inl e | Inr u \<Rightarrow> Inr payload)
     else Inl InvalidSignatureError)"
proof -
  from assms have lp: "json_loads L (json_dumps L payload) = Some payload"
    by (simp add: round_trips_def Let_def)
  show ?thesis
    unfolding jwt_decode_def jws_load_encode [OF assms]
    by (simp add: verify_signature_def jwt_header_def lp)
qed

lemma jwt_decode_encode:
  assumes "round_trips L key payload"
  shows "jwt_decode L (jwt_encode L payload key) key [''HS256''] now =
    (case validate_exp L payload now of Inl e \<Rightarrow> Inl e | Inr u \<Rightarrow> Inr payload)"
  using jwt_decode_encode_key [OF assms, of key now] by simp





text \<open>\<^verbatim>\<open>jwt.decode\<close> reports the first check that fails: loading before the signature.\<close>

lemma jwt_decode_load_error:
  "jws_load L t = Inl e \<Longrightarrow> jwt_decode L t key algorithms now = Inl e"
  by (simp add: jwt_decode_def)

lemma jwt_decode_signature_error:
  "jws_load L t = Inr (payload, signing_input, header, signature)
   \<Longrightarrow> verify_signature L signing_input header signature key algorithms = Inl e
   \<Longrightarrow> jwt_decode L t key algorithms now = Inl e"
  by (simp add: jwt_decode_def)

text \<open>The expiry that \<^verbatim>\<open>login\<close> of bp3 writes lies strictly after the clock at issuance.\<close>

lemma login_exp_after_issue: "(t :: int) < (t + 1800 * 1000000) div 1000000 * 1000000"
proof -
  have m: "(t + 1800 * 1000000) mod 1000000 < 1000000" by simp
  have "(t + 1800 * 1000000) div 1000000 * 1000000 = (t + 1800 * 1000000) - (t + 1800 * 1000000) mod 1000000"
    by (simp only: minus_mod_eq_div_mult)
  with m show ?thesis by linarith
qed

lemma login_exp_within_ttl: "(t :: int) + 1800 * 1000000 \<ge> (t + 1800 * 1000000) div 1000000 * 1000000"
proof -
  have m: "0 \<le> (t + 1800 * 1000000) mod 1000000" by simp
  have "(t + 1800 * 1000000) div 1000000 * 1000000 = (t + 1800 * 1000000) - (t + 1800 * 1000000) mod 1000000"
    by (simp only: minus_mod_eq_div_mult)
  with m show ?thesis by linarith
qed



text \<open>
  Login of bp3 on well-formed input: an unknown username, and a known one with a password
  that bcrypt does not accept for the stored hash, get the same response.
\<close>

lemma login_bp3_unknown:
  "select_by_username s unknown = Inr None
   \<Longrightarrow> login_bp3 L s unknown anything = Inr (Response 401 [(''message'', JStr ''Invalid credentials'')])"
  by (simp add: login_bp3_def)

lemma login_bp3_wrong_password:
  "select_by_username s known = Inr (Some (i, name, hashed)) \<Longrightarrow> utf8_encode wrong = Inr pw
   \<Longrightarrow> checkpw L pw hashed = Inr False
   \<Longrightarrow> login_bp3 L s known wrong = Inr (Response 401 [(''message'', JStr ''Invalid credentials'')])"
  by (simp add: login_bp3_def)

text \<open>
  While a leaked connection holds the write lock, \<^verbatim>\<open>register\<close> of bp3 answers every
  registration whose password can be hashed with its duplicate-user response and stores
  nothing; \<^verbatim>\<open>register_user\<close> of p001 raises.
\<close>

lemma register_bp3_while_locked:
  "db_up s \<Longrightarrow> write_lock s \<Longrightarrow> hashed_password L password salt = Inr hashed
   \<Longrightarrow> register_bp3 L s salt username password
       = (s, Inr (Response 409 [(''message'', JStr ''User already exists'')]))"
  by (simp add: register_bp3_def insert_user_def split: sum.splits py_exception.splits)

lemma register_user_while_locked:
  "db_up s \<Longrightarrow> write_lock s \<Longrightarrow> utf8_encode username = Inr name \<Longrightarrow> utf8_encode password = Inr pw
   \<Longrightarrow> register_user s username password = (s, Inl OperationalError)"
  by (simp add: register_user_def insert_user_def)

text \<open>
  In bp3 the index \<^verbatim>\<open>[1]\<close> is inside the \<^verbatim>\<open>try\<close>: a header without a second part is
  answered like every other invalid token.
\<close>

lemma token_required_bp3_short_header:
  "length (py_split v) < 2 \<Longrightarrow> v \<noteq> []
   \<Longrightarrow> token_required_bp3 L s (Some v) f = Inr (Response 403 [(''message'', JStr ''Token is invalid'')])"
  by (simp add: token_required_bp3_def try_block_bp3_def py_index_def)

section \<open>The claims\<close>

subsection \<open>C1: the failure kinds of the guard\<close>




subsection \<open>C2: the lifetime of an issued token\<close>




subsection \<open>C3: a username registers once\<close>

text \<open>
  C3 says that a username that is not yet registered registers successfully exactly
  once, that a later registration of the same username fails with the duplicate-user
  error, and that the stored hash stays the first one. The first call and the duplicate
  call behave so, and the row is never overwritten. But the branch that answers the
  duplicate returns without closing its connection, which still holds sqlite's write
  lock, where the success path does close it. Until the garbage collector has freed that
  connection no registration can write: below, after \<open>alice\<close> was registered and
  registered again, the new user \<open>bob\<close> gets \<open>User already exists\<close> from bp3 and is not
  stored, although he registers once the connection is collected; in p001 the new user
  and a third registration of \<open>alice\<close> get \<open>OperationalError\<close>.
\<close>

theorem duplicate_register_blocks_new_users:
  "register_bp3 demo_lib empty_server ''saltsalt'' (py_str ''alice'') (py_str ''secret123'') =
     (empty_server\<lparr>users := [(1, ''alice'', ''saltsaltxeU'')]\<rparr>,
      Inr (Response 201 [(''message'', JStr ''User registered'')]))
   \<and> register_bp3 demo_lib (empty_server\<lparr>users := [(1, ''alice'', ''saltsaltxeU'')]\<rparr>)
        ''pepperpe'' (py_str ''alice'') (py_str ''another'') =
     (empty_server\<lparr>write_lock := True, users := [(1, ''alice'', ''saltsaltxeU'')]\<rparr>,
      Inr (Response 409 [(''message'', JStr ''User already exists'')]))
   \<and> register_bp3 demo_lib (empty_server\<lparr>write_lock := True, users := [(1, ''alice'', ''saltsaltxeU'')]\<rparr>)
        ''saltsalt'' (py_str ''bob'') (py_str ''hunter22'') =
     (empty_server\<lparr>write_lock := True, users := [(1, ''alice'', ''saltsaltxeU'')]\<rparr>,
      Inr (Response 409 [(''message'', JStr ''User already exists'')]))
   \<and> select_by_username (empty_server\<lparr>write_lock := True, users := [(1, ''alice'', ''saltsaltxeU'')]\<rparr>)
        (py_str ''bob'') = Inr None
   \<and> snd (register_bp3 demo_lib
        (collect (empty_server\<lparr>write_lock := True, users := [(1, ''alice'', ''saltsaltxeU'')]\<rparr>))
        ''saltsalt'' (py_str ''bob'') (py_str ''hunter22''))
       = Inr (Response 201 [(''message'', JStr ''User registered'')])
   \<and> register_user empty_server (py_str ''alice'') (py_str ''secret123'') =
     (empty_server\<lparr>users := [(1, ''alice'', ''secret123'')]\<rparr>,
      Inr (Response 200 [(''message'', JStr ''User registered successfully'')]))
   \<and> register_user (empty_server\<lparr>users := [(1, ''alice'', ''secret123'')]\<rparr>)
        (py_str ''alice'') (py_str ''another'') =
     (empty_server\<lparr>write_lock := True, users := [(1, ''alice'', ''secret123'')]\<rparr>,
      Inr (Response 400 [(''error'', JStr ''Username already exists'')]))
   \<and> register_user (empty_server\<lparr>write_lock := True, users := [(1, ''alice'', ''secret123'')]\<rparr>)
        (py_str ''bob'') (py_str ''hunter22'') =
     (empty_server\<lparr>write_lock := True, users := [(1, ''alice'', ''secret123'')]\<rparr>, Inl OperationalError)
   \<and> register_user (empty_server\<lparr>write_lock := True, users := [(1, ''alice'', ''secret123'')]\<rparr>)
        (py_str ''alice'') (py_str ''third'') =
     (empty_server\<lparr>write_lock := True, users := [(1, ''alice'', ''secret123'')]\<rparr>, Inl OperationalError)"
  by code_simp

subsection \<open>C4: a failed login does not tell whether the username exists\<close>

text \<open>
  C4 says that a login with an unknown username and a login with a known username and a
  wrong password fail with the same error, so that the response does not tell whether the
  username exists. Both logins answer \<open>Invalid credentials\<close> in the two cases when the
  password is well-formed. But \<^verbatim>\<open>login\<close> of bp3 encodes and checks the password only when
  the row exists, and outside any \<^verbatim>\<open>try\<close>: with the password \<^verbatim>\<open>"\ud800"\<close>, a lone
  surrogate, the registered \<open>alice\<close> gets \<open>UnicodeEncodeError\<close> (status 500) and the
  unknown \<open>bob\<close> gets 401, while \<open>alice\<close> with an ordinary wrong password gets 401.
\<close>

theorem login_bp3_reveals_username:
  "login_bp3 demo_lib (demo_server 0) (py_str ''alice'') [55296] = Inl UnicodeEncodeError
   \<and> flask_response (login_bp3 demo_lib (demo_server 0) (py_str ''alice'') [55296]) = Fetched 500 None
   \<and> login_bp3 demo_lib (demo_server 0) (py_str ''bob'') [55296]
       = Inr (Response 401 [(''message'', JStr ''Invalid credentials'')])
   \<and> login_bp3 demo_lib (demo_server 0) (py_str ''alice'') (py_str ''wrongpass'')
       = Inr (Response 401 [(''message'', JStr ''Invalid credentials'')])"
  by code_simp

subsection \<open>C5: what is stored for a password\<close>

text \<open>
  C5 says that every registration stores a salted one-way hash and never the password,
  and that login compares through the hash function. \<^verbatim>\<open>register\<close> of bp3 does so (the
  row holds the bcrypt hash, \<open>hashed_password\<close>). \<^verbatim>\<open>register_user\<close> of p001 does not:
  registering \<open>alice\<close> with \<open>secret123\<close> stores \<open>secret123\<close> itself, and the query of
  \<^verbatim>\<open>login\<close> finds the row by comparing the password with the stored column.
\<close>

theorem register_user_stores_plaintext:
  "register_user empty_server (py_str ''alice'') (py_str ''secret123'') =
     (empty_server\<lparr>users := [(1, ''alice'', ''secret123'')]\<rparr>,
      Inr (Response 200 [(''message'', JStr ''User registered successfully'')]))
   \<and> select_by_username_password (empty_server\<lparr>users := [(1, ''alice'', ''secret123'')]\<rparr>)
        (py_str ''alice'') (py_str ''secret123'') = Inr (Some (1, ''alice'', ''secret123''))"
  by code_simp

subsection \<open>C6: the claims of an issued token\<close>

text \<open>
  C6 says that every issued token has three parts and claims with at least the subject
  and \<open>exp\<close>, with \<open>exp\<close> after the issuance. The token of \<^verbatim>\<open>login\<close> of bp3 has both (the
  subject under the key \<open>username\<close>). The token of \<^verbatim>\<open>create_token\<close> of p001 has three
  parts but its only claim is \<open>user\<close>: it has no \<open>exp\<close>, and \<^verbatim>\<open>jwt.decode\<close> still accepts
  it in the year 3000.
\<close>

theorem create_token_has_no_exp:
  "create_token demo_lib empty_server ''alice'' = ''eyJhbGciOiJIUzI1NiIsInR5cCI6IkpXVCJ9.eyJ1c2VyIjoiYWxpY2UifQ.BoI''
   \<and> jwt_decode demo_lib (create_token demo_lib empty_server ''alice'') ''mysecret'' [''HS256'']
        32503680000000000 = Inr [(''user'', JStr ''alice'')]
   \<and> map_of [(''user'', JStr ''alice'')] ''exp'' = None"
  by code_simp

subsection \<open>C7: the client after a rejection\<close>

text \<open>
  C7 says that the client discards its token whenever a protected call is rejected, for
  all failure kinds of the guard. \<^verbatim>\<open>handlePredict\<close> logs out on status 401 only, and the
  guard of bp3, which serves the path \<^verbatim>\<open>/api/predict\<close> that this client calls, rejects
  with 403. Below the client holds an expired token, the guard answers 403, and the token
  is still in the client's state afterwards.
\<close>

theorem handlePredict_keeps_token_on_403_counterexample:
  "flask_response (token_required_bp3 demo_lib (demo_server 3000000000)
       (Some (authorization_header (handleLogin anonymous ''eyJhbGciOiJIUzI1NiIsInR5cCI6IkpXVCJ9.eyJ1c2VybmFtZSI6ImFsaWNlIiwiZXhwIjoyODAwfQ.9vk'' ''alice''))) demo_view)
     = Fetched 403 (Some [(''message'', JStr ''Token is invalid'')])
   \<and> st_token (fst (handlePredict (handleLogin anonymous ''eyJhbGciOiJIUzI1NiIsInR5cCI6IkpXVCJ9.eyJ1c2VybmFtZSI6ImFsaWNlIiwiZXhwIjoyODAwfQ.9vk'' ''alice'')
        (Fetched 403 (Some [(''message'', JStr ''Token is invalid'')]))))
     = Some ''eyJhbGciOiJIUzI1NiIsInR5cCI6IkpXVCJ9.eyJ1c2VybmFtZSI6ImFsaWNlIiwiZXhwIjoyODAwfQ.9vk''"
  by code_simp

text \<open>
  C7 as amended: after a response to the protected call, the token in the client's state
  and in \<^verbatim>\<open>localStorage\<close> is gone if the status is 401, and is what it was before for
  every other status.
\<close>

theorem handlePredict_logs_out_on_401_only:
  "st_token (fst (handlePredict c (Fetched status body))) = (if status = 401 then None else st_token c)
   \<and> localStorage (fst (handlePredict c (Fetched status body))) ''token'' =
       (if status = 401 then None else localStorage c ''token'')"
  by (simp add: handlePredict_def logout_def split: option.splits)

subsection \<open>C8: a storage outage\<close>

text \<open>
  C8 says that an outage of the store during registration or login surfaces as a
  condition of its own, not as success and not as a credential error. With the store
  down, \<^verbatim>\<open>register_user\<close> of p001 and both logins let \<open>OperationalError\<close> leave the view,
  but \<^verbatim>\<open>register\<close> of bp3, once it has hashed the password, catches it with its bare
  \<^verbatim>\<open>except\<close> and answers 409 \<open>User already exists\<close>, the response of a duplicate user.
\<close>

theorem register_bp3_outage_reported_as_duplicate:
  "register_bp3 L (s\<lparr>db_up := False\<rparr>) salt username password =
     (s\<lparr>db_up := False\<rparr>,
      case hashed_password L password salt of
        Inl e \<Rightarrow> Inl e
      | Inr hashed \<Rightarrow> Inr (Response 409 [(''message'', JStr ''User already exists'')]))
   \<and> register_bp3 demo_lib (empty_server\<lparr>db_up := False\<rparr>) ''saltsalt'' (py_str ''alice'') (py_str ''secret123'') =
     (empty_server\<lparr>db_up := False\<rparr>, Inr (Response 409 [(''message'', JStr ''User already exists'')]))
   \<and> register_user (s\<lparr>db_up := False\<rparr>) username password = (s\<lparr>db_up := False\<rparr>, Inl OperationalError)
   \<and> login_bp3 L (s\<lparr>db_up := False\<rparr>) username password = Inl OperationalError
   \<and> login_p001 L (s\<lparr>db_up := False\<rparr>) username password = Inl OperationalError"
proof -
  have "register_bp3 demo_lib (empty_server\<lparr>db_up := False\<rparr>) ''saltsalt'' (py_str ''alice'') (py_str ''secret123'') =
     (empty_server\<lparr>db_up := False\<rparr>, Inr (Response 409 [(''message'', JStr ''User already exists'')]))"
    by code_simp
  then show ?thesis
    by (simp add: register_bp3_def register_user_def login_bp3_def login_p001_def insert_user_def
        select_by_username_def select_by_username_password_def split: sum.splits)
qed

subsection \<open>C9: a header without a second part\<close>

text \<open>
  C9: in p001, when the \<^verbatim>\<open>Authorization\<close> header is present and \<^verbatim>\<open>split()\<close> yields fewer
  than two parts, the decorator returns neither of its responses: \<open>IndexError\<close> leaves
  it, and Flask answers with status 500.
\<close>

theorem token_required_p001_index_error:
  "length (py_split v) < 2 \<Longrightarrow>
     token_required_p001 L s (Some v) f = Inl IndexError
     \<and> flask_response (token_required_p001 L s (Some v) f) = Fetched 500 None"
  by (simp add: token_required_p001_def py_index_def flask_response_def)

text \<open>The theorem at the header \<^verbatim>\<open>Bearer\<close>.\<close>

theorem token_required_p001_index_error_witness:
  "length (py_split ''Bearer'') < 2
   \<and> token_required_p001 demo_lib empty_server (Some ''Bearer'') demo_view = Inl IndexError
   \<and> flask_response (token_required_p001 demo_lib empty_server (Some ''Bearer'') demo_view)
       = Fetched 500 None"
proof -
  have h: "length (py_split ''Bearer'') < 2" by code_simp
  show ?thesis
    using token_required_p001_index_error [OF h, of demo_lib empty_server demo_view] h by blast
qed

subsection \<open>C10: the token of p001 does not depend on the time\<close>

text \<open>
  C10: \<^verbatim>\<open>create_token\<close> of p001 returns the same token for a username whatever the clock
  shows; the signed claims are the username alone, and the expiry check of \<^verbatim>\<open>jwt.decode\<close>
  passes them at every time.
\<close>

theorem create_token_independent_of_clock:
  "create_token L (s\<lparr>utcnow := t1\<rparr>) username = create_token L (s\<lparr>utcnow := t2\<rparr>) username
   \<and> create_token L s username = jwt_encode L [(''user'', JStr username)] (SECRET_KEY s)
   \<and> validate_exp L [(''user'', JStr username)] now = Inr ()"
  by (simp add: create_token_def validate_exp_def)

end
